theory Spec2Isabelle
  imports Main "HOL-Library.Multiset"
begin

section \<open>JavaScript values of the gVIRS contact loader\<close>

text \<open>
  The loader (the third file of \<^verbatim>\<open>src/src/components/AssignmentTexterSurveys.jsx\<close>,
  lines 511 to 695) reads two JSON texts: \<^verbatim>\<open>job.payload\<close> and the request
  parameter \<^verbatim>\<open>clientchoicedata\<close>. A decoded JSON text is a value of \<open>json\<close>;
  the result of reading a property is a \<open>json option\<close>, \<open>None\<close> being
  JavaScript's \<^verbatim>\<open>undefined\<close>.
\<close>

datatype json =
    JNull
  | JBool bool
  | JNum int
  | JStr string
  | JArr "json list"
  | JObj "(string \<times> json) list"

text \<open>
  What a statement can throw, or an awaited promise reject with. \<open>Rejected r\<close> is a
  rejection of one of the imported helpers, with its reason.
\<close>

datatype js_error = SyntaxError | TypeError | Rejected json

text \<open>
  \<^verbatim>\<open>v.k\<close> for the keys the loader reads (\<^verbatim>\<open>segmentIds\<close>, \<^verbatim>\<open>segmentId\<close>,
  \<^verbatim>\<open>id\<close>, \<^verbatim>\<open>name\<close>), none of which is a property of a prototype of a decoded
  value: reading a property of \<^verbatim>\<open>null\<close> throws a TypeError, an object gives the
  value stored under the key, and anything else gives \<^verbatim>\<open>undefined\<close>.
\<close>

fun js_get :: "json \<Rightarrow> string \<Rightarrow> js_error + json option" where
  "js_get JNull k = Inl TypeError"
| "js_get (JObj kvs) k = Inr (map_of kvs k)"
| "js_get v k = Inr None"

text \<open>
  \<^verbatim>\<open>for (const x of v)\<close>: an array gives its elements, a string its characters,
  and nothing else that a decoded value or \<^verbatim>\<open>undefined\<close> can be is iterable.
\<close>

fun js_iterate :: "json option \<Rightarrow> js_error + json list" where
  "js_iterate (Some (JArr xs)) = Inr xs"
| "js_iterate (Some (JStr s)) = Inr (map (\<lambda>c. JStr [c]) s)"
| "js_iterate v = Inl TypeError"

text \<open>
  \<^verbatim>\<open>"name" in v\<close>: the operator throws a TypeError on a primitive; an object has the
  key when it stores a value under it, and an array has no such key.
\<close>

fun js_has_name :: "json \<Rightarrow> js_error + bool" where
  "js_has_name (JObj kvs) = Inr (''name'' \<in> fst ` set kvs)"
| "js_has_name (JArr xs) = Inr False"
| "js_has_name v = Inl TypeError"

section \<open>Objects as ordered property lists\<close>

text \<open>
  \<^verbatim>\<open>contactsForAdding\<close> starts as \<^verbatim>\<open>{}\<close> and is filled by
  \<^verbatim>\<open>contactsForAdding[contactRecord.cell] = contactRecord\<close>. An object keeps its
  own properties in the order of their creation, and an assignment to an existing
  key replaces the value where it stands. The one key that is no ordinary property
  of an object literal is \<^verbatim>\<open>__proto__\<close>: assigning to it calls the setter
  inherited from \<^verbatim>\<open>Object.prototype\<close> and creates no own property.
\<close>

type_synonym 'v js_object = "(string \<times> 'v) list"

primrec assign :: "string \<Rightarrow> 'v \<Rightarrow> 'v js_object \<Rightarrow> 'v js_object" where
  "assign k v [] = [(k, v)]"
| "assign k v (p # ps) = (if fst p = k then (k, v) # ps else p # assign k v ps)"

definition obj_set :: "'v js_object \<Rightarrow> string \<Rightarrow> 'v \<Rightarrow> 'v js_object" where
  "obj_set obj k v = (if k = ''__proto__'' then obj else assign k v obj)"

text \<open>
  \<^verbatim>\<open>Object.values\<close> lists the own properties: first the keys that are array
  indices (the canonical decimal numerals below \<open>2^32 - 1\<close>) by ascending value,
  then every other key in the order of creation.
\<close>

definition is_digit :: "char \<Rightarrow> bool" where
  "is_digit c = (c \<in> set ''0123456789'')"

definition digits_val :: "string \<Rightarrow> nat" where
  "digits_val k = foldl (\<lambda>n c. 10 * n + (of_char c - 48)) 0 k"

definition array_index :: "string \<Rightarrow> nat option" where
  "array_index k =
     (if k \<noteq> [] \<and> list_all is_digit k \<and> (k = ''0'' \<or> hd k \<noteq> CHR ''0'')
         \<and> digits_val k < 4294967295
      then Some (digits_val k) else None)"

definition index_of_key :: "string \<Rightarrow> nat" where
  "index_of_key k = (case array_index k of Some n \<Rightarrow> n | None \<Rightarrow> 0)"

definition is_array_index :: "string \<Rightarrow> bool" where
  "is_array_index k = (array_index k \<noteq> None)"

definition Object_values :: "'v js_object \<Rightarrow> 'v list" where
  "Object_values obj =
     map snd (sort_key (\<lambda>p. index_of_key (fst p)) [p \<leftarrow> obj. is_array_index (fst p)])
     @ map snd [p \<leftarrow> obj. \<not> is_array_index (fst p)]"

section \<open>The contact loader: processContactLoad\<close>

record job =
  campaign_id :: int
  payload :: string

record organization =
  name :: string

text \<open>
  A contact record as \<^verbatim>\<open>getSegmentContacts\<close> returns it and as
  \<^verbatim>\<open>batchInsert\<close> stores it in the table \<^verbatim>\<open>campaign_contact\<close>: the loader
  itself reads only \<^verbatim>\<open>cell\<close>, and the \<^verbatim>\<open>delete\<close> selects on the column
  \<^verbatim>\<open>campaign_id\<close>; \<open>columns\<close> stands for the other columns.
\<close>

record contact_record =
  cell :: string
  contact_campaign_id :: int
  columns :: "(string \<times> string) list"

text \<open>
  The imported helpers and constants are not part of the file; they are parameters.
  \<open>getSegmentContacts\<close> (of \<^verbatim>\<open>./util\<close>) resolves to a list of contact records
  or rejects; \<open>searchSegments\<close> (of \<^verbatim>\<open>./util\<close>) resolves to the segments or
  rejects with a reason; \<open>JSON_parse\<close> is \<^verbatim>\<open>JSON.parse\<close>, \<open>None\<close> where it throws
  a SyntaxError.
\<close>

record env =
  JSON_parse :: "string \<Rightarrow> json option"
  getSegmentContacts :: "json option \<Rightarrow> int \<Rightarrow> string \<Rightarrow> js_error + contact_record list"
  searchSegments :: "string \<Rightarrow> json option \<Rightarrow> json + json"
  GVIRS_MINQUERY_SIZE :: nat

text \<open>
  The calls the loader makes on the database, on gVIRS and on the job framework, in
  the order in which it makes them. \<open>GetSegmentContacts\<close> records the arguments and
  what the call gave; \<open>CompleteContactLoad\<close> records the job, the value
  \<^verbatim>\<open>contactData.segmentId\<close> that is passed through \<^verbatim>\<open>String\<close>, and the
  \<^verbatim>\<open>finalCount\<close> that is passed through \<^verbatim>\<open>JSON.stringify\<close>.
\<close>

datatype event =
    Delete int
  | GetSegmentContacts "json option" int string "js_error + contact_record list"
  | BatchInsert "contact_record list" nat
  | CompleteContactLoad job "json option" nat

text \<open>The inner loop, lines 676 to 678.\<close>

primrec add_contacts ::
  "contact_record js_object \<Rightarrow> contact_record list \<Rightarrow> contact_record js_object" where
  "add_contacts obj [] = obj"
| "add_contacts obj (contactRecord # rest) =
     add_contacts (obj_set obj (cell contactRecord) contactRecord) rest"

text \<open>
  The outer loop, lines 664 to 680: it ends at the first segment whose
  \<^verbatim>\<open>id\<close> cannot be read or whose fetch rejects.
\<close>

fun load_segments ::
  "env \<Rightarrow> int \<Rightarrow> string \<Rightarrow> json list \<Rightarrow> contact_record js_object
     \<Rightarrow> event list \<times> (js_error + contact_record js_object)" where
  "load_segments e campaignId org [] obj = ([], Inr obj)"
| "load_segments e campaignId org (segment # rest) obj =
     (case js_get segment ''id'' of
        Inl err \<Rightarrow> ([], Inl err)
      | Inr sid \<Rightarrow>
          (case getSegmentContacts e sid campaignId org of
             Inl err \<Rightarrow> ([GetSegmentContacts sid campaignId org (Inl err)], Inl err)
           | Inr newContacts \<Rightarrow>
               (case load_segments e campaignId org rest (add_contacts obj newContacts) of
                  (evs, r) \<Rightarrow>
                    (GetSegmentContacts sid campaignId org (Inr newContacts) # evs, r))))"

text \<open>
  What a run of \<^verbatim>\<open>processContactLoad\<close> leaves: \<open>outcome\<close> is \<open>None\<close> when
  the promise resolves and the error when it rejects, \<open>events\<close> the calls made and
  \<open>table\<close> the rows of \<^verbatim>\<open>campaign_contact\<close> afterwards.
\<close>

record load_result =
  outcome :: "js_error option"
  events :: "event list"
  table :: "contact_record list"

text \<open>
  Lines 650 to 695. The statements on \<^verbatim>\<open>customFields\<close> (lines 652 and 653)
  compute values that are never used and are left out; \<^verbatim>\<open>maxContacts\<close> is never
  read. The database calls are taken to succeed: \<^verbatim>\<open>delete\<close> removes the rows of
  the campaign, \<^verbatim>\<open>batchInsert\<close> appends the rows given.
\<close>

definition processContactLoad ::
  "env \<Rightarrow> job \<Rightarrow> nat \<Rightarrow> organization \<Rightarrow> contact_record list \<Rightarrow> load_result" where
  "processContactLoad e jb maxContacts org tbl =
     (let campaignId = campaign_id jb;
          deleted = [row \<leftarrow> tbl. contact_campaign_id row \<noteq> campaignId]
      in case JSON_parse e (payload jb) of
           None \<Rightarrow> \<lparr>outcome = Some SyntaxError, events = [Delete campaignId], table = deleted\<rparr>
         | Some contactData \<Rightarrow>
            (case js_get contactData ''segmentIds'' of
               Inl err \<Rightarrow> \<lparr>outcome = Some err, events = [Delete campaignId], table = deleted\<rparr>
             | Inr segmentIds \<Rightarrow>
                (case js_iterate segmentIds of
                   Inl err \<Rightarrow>
                     \<lparr>outcome = Some err, events = [Delete campaignId], table = deleted\<rparr>
                 | Inr segments \<Rightarrow>
                    (case load_segments e campaignId (name org) segments [] of
                       (fetches, Inl err) \<Rightarrow>
                         \<lparr>outcome = Some err, events = Delete campaignId # fetches,
                          table = deleted\<rparr>
                     | (fetches, Inr contactsForAdding) \<Rightarrow>
                        (let newContactRecords = Object_values contactsForAdding;
                             finalCount = length newContactRecords;
                             inserts = (if finalCount \<noteq> 0
                                        then [BatchInsert newContactRecords finalCount]
                                        else []);
                             inserted = (if finalCount \<noteq> 0
                                         then deleted @ newContactRecords
                                         else deleted)
                         in case js_get contactData ''segmentId'' of
                              Inl err \<Rightarrow>
                                \<lparr>outcome = Some err,
                                 events = Delete campaignId # fetches @ inserts,
                                 table = inserted\<rparr>
                            | Inr segmentId \<Rightarrow>
                                \<lparr>outcome = None,
                                 events = Delete campaignId # fetches @ inserts
                                   @ [CompleteContactLoad jb segmentId finalCount],
                                 table = inserted\<rparr>)))))"

text \<open>
  Reading a run back: the records that the fetches gave, in the order of iteration,
  and the records that were handed to \<^verbatim>\<open>batchInsert\<close>.
\<close>

fun fetched_records :: "event list \<Rightarrow> contact_record list" where
  "fetched_records [] = []"
| "fetched_records (GetSegmentContacts sid c org (Inr rs) # evs) = rs @ fetched_records evs"
| "fetched_records (ev # evs) = fetched_records evs"

fun inserted_records :: "event list \<Rightarrow> contact_record list" where
  "inserted_records [] = []"
| "inserted_records (BatchInsert rs n # evs) = rs @ inserted_records evs"
| "inserted_records (ev # evs) = inserted_records evs"

fun is_batch_insert :: "event \<Rightarrow> bool" where
  "is_batch_insert (BatchInsert rs n) = True"
| "is_batch_insert ev = False"

fun is_complete :: "event \<Rightarrow> bool" where
  "is_complete (CompleteContactLoad jb sid n) = True"
| "is_complete ev = False"

text \<open>
  \<open>fetch_resolved e campaignId org segment ev\<close>: the event \<open>ev\<close> is the fetch of
  \<open>segment\<close>, and the fetch resolved.
\<close>

definition fetch_resolved :: "env \<Rightarrow> int \<Rightarrow> string \<Rightarrow> json \<Rightarrow> event \<Rightarrow> bool" where
  "fetch_resolved e campaignId org segment ev =
     (case js_get segment ''id'' of
        Inl err \<Rightarrow> False
      | Inr sid \<Rightarrow>
          (case getSegmentContacts e sid campaignId org of
             Inl err \<Rightarrow> False
           | Inr rs \<Rightarrow> ev = GetSegmentContacts sid campaignId org (Inr rs)))"

text \<open>
  What \<^verbatim>\<open>processContactLoad\<close> reads from the payload of a job: the segments it
  iterates over (\<open>None\<close> when the payload is no JSON text or
  \<^verbatim>\<open>contactData.segmentIds\<close> cannot be iterated), and the value of
  \<^verbatim>\<open>contactData.segmentId\<close>.
\<close>

definition payload_segments :: "env \<Rightarrow> job \<Rightarrow> json list option" where
  "payload_segments e jb =
     (case JSON_parse e (payload jb) of
        None \<Rightarrow> None
      | Some contactData \<Rightarrow>
          (case js_get contactData ''segmentIds'' of
             Inl err \<Rightarrow> None
           | Inr segmentIds \<Rightarrow>
               (case js_iterate segmentIds of Inl err \<Rightarrow> None | Inr segments \<Rightarrow> Some segments)))"

definition payload_segmentId :: "env \<Rightarrow> job \<Rightarrow> json option" where
  "payload_segmentId e jb =
     (case JSON_parse e (payload jb) of
        None \<Rightarrow> None
      | Some contactData \<Rightarrow>
          (case js_get contactData ''segmentId'' of Inl err \<Rightarrow> None | Inr v \<Rightarrow> v))"

text \<open>
  The property list of \<^verbatim>\<open>contactsForAdding\<close> is well formed when no key stands
  twice and every record stands under its own \<^verbatim>\<open>cell\<close>.
\<close>

definition keyed :: "contact_record js_object \<Rightarrow> bool" where
  "keyed obj = (distinct (map fst obj) \<and> list_all (\<lambda>p. fst p = cell (snd p)) obj)"

section \<open>The contact loader: the endpoint of addServerEndpoints\<close>

text \<open>
  The request as the handler reads it: \<^verbatim>\<open>req.isAuthenticated()\<close> and the two
  parameters of \<^verbatim>\<open>req.query\<close>, \<open>None\<close> when the URL does not carry them.
\<close>

record request =
  isAuthenticated :: bool
  query :: "string option"
  clientchoicedata :: "string option"

text \<open>
  The handler either sends a response (the status, 200 unless \<^verbatim>\<open>res.status\<close> sets
  it, and the JSON body) or throws. \<open>searched\<close> lists the calls of
  \<^verbatim>\<open>searchSegments\<close> with their arguments.
\<close>

datatype reply = Response nat json | Throws js_error

record handled =
  searched :: "(string \<times> json option) list"
  answer :: reply

text \<open>
  Lines 575 to 595, the handler that \<^verbatim>\<open>addServerEndpoints\<close> registers for GET on
  \<^verbatim>\<open>GVIRS_INTEGRATION_ENDPOINT\<close>. \<^verbatim>\<open>query.length\<close> throws when the parameter is
  missing, \<^verbatim>\<open>JSON.parse\<close> when \<^verbatim>\<open>clientchoicedata\<close> is missing or no JSON text.
  The response of a resolved or rejected search is sent from the promise's
  \<^verbatim>\<open>then\<close> and \<^verbatim>\<open>catch\<close>.
\<close>

definition addServerEndpoints :: "env \<Rightarrow> request \<Rightarrow> handled" where
  "addServerEndpoints e req =
     (if \<not> isAuthenticated req
      then \<lparr>searched = [], answer = Response 401 (JObj [])\<rparr>
      else case query req of
        None \<Rightarrow> \<lparr>searched = [], answer = Throws TypeError\<rparr>
      | Some q \<Rightarrow>
         if length q < GVIRS_MINQUERY_SIZE e
         then \<lparr>searched = [], answer = Response 200 (JObj [(''segments'', JArr [])])\<rparr>
         else
          (case (case clientchoicedata req of None \<Rightarrow> None | Some t \<Rightarrow> JSON_parse e t) of
             None \<Rightarrow> \<lparr>searched = [], answer = Throws SyntaxError\<rparr>
           | Some decodeClientChoiceData \<Rightarrow>
              (case js_has_name decodeClientChoiceData of
                 Inl err \<Rightarrow> \<lparr>searched = [], answer = Throws err\<rparr>
               | Inr False \<Rightarrow>
                   \<lparr>searched = [], answer = Response 200 (JObj [(''segments'', JArr [])])\<rparr>
               | Inr True \<Rightarrow>
                  (case js_get decodeClientChoiceData ''name'' of
                     Inl err \<Rightarrow> \<lparr>searched = [], answer = Throws err\<rparr>
                   | Inr nm \<Rightarrow>
                      (let q' = (if q = [] then [] else q) in
                       case searchSegments e q' nm of
                         Inr segments \<Rightarrow>
                           \<lparr>searched = [(q', nm)],
                            answer = Response 200 (JObj [(''segments'', segments)])\<rparr>
                       | Inl error \<Rightarrow>
                           \<lparr>searched = [(q', nm)],
                            answer = Response 200
                              (JObj [(''segments'', JArr []), (''error'', error)])\<rparr>)))))"

section \<open>The message status lifecycle\<close>

text \<open>
  The resolvers behind \<^verbatim>\<open>sendMessage\<close>, \<^verbatim>\<open>createOptOut\<close> and
  \<^verbatim>\<open>getAssignmentContacts\<close>, the fake message service and the tables they work on
  are not among the source files: \<^verbatim>\<open>src/unnamed/part_000\<close> holds only the tests
  that call them. The definitions of this section follow the specification
  (sections 2, 3 and 4.1) and the values the tests expect.
\<close>

text \<open>
  Modelled from the spec: the statuses of a campaign contact (section 3); the code
  that declares them is missing.
\<close>

datatype message_status = needsMessage | messaged | needsResponse | convo | closed | optOut

text \<open>
  Modelled from the spec: the send statuses of a message (section 3: SENT, DELIVERED,
  ERROR and others); \<open>QUEUED\<close> stands for the status of a message that the
  provider has not marked yet. The code that declares them is missing.
\<close>

datatype send_status = QUEUED | SENT | DELIVERED | ERROR

text \<open>
  Modelled from the spec: a message (section 3) has a text, a direction, a send status,
  and belongs to one assignment and one campaign contact; the table is missing.
\<close>

record message =
  message_text :: string
  is_from_contact :: bool
  send_status :: send_status
  message_assignment_id :: nat
  campaign_contact_id :: nat

text \<open>
  Modelled from the spec: a campaign contact (section 3) has an identity (id and cell
  number), belongs to one campaign and, when assigned, to one assignment; the table is
  missing.
\<close>

record campaign_contact =
  contact_id :: nat
  contact_cell :: string
  contact_campaign :: nat
  assignment_id :: "nat option"

text \<open>
  Modelled from the spec: the contact store of one organization (section 2): its
  campaign contacts, its messages in the order of their arrival, and the cell numbers
  with an opt-out (section 3); the database is missing.
\<close>

record store =
  campaign_contacts :: "campaign_contact list"
  messages :: "message list"
  opt_outs :: "string list"

text \<open>
  Modelled from the spec: the status transition logic (section 4.1), missing from the
  sources. Given the opt-out flag and the message history of a contact: an opt-out
  gives \<open>optOut\<close> and overrides every other rule; no message gives
  \<open>needsMessage\<close>; a latest message that is inbound gives \<open>needsResponse\<close>; a
  latest message that is outbound gives \<open>convo\<close> when it follows an inbound
  message, and \<open>messaged\<close> otherwise. The rules name no status for a delivered
  outbound message that follows no inbound one; it keeps \<open>messaged\<close>.
\<close>

definition compute_message_status :: "bool \<Rightarrow> message list \<Rightarrow> message_status" where
  "compute_message_status opted history =
     (if opted then optOut
      else if history = [] then needsMessage
      else if is_from_contact (last history) then needsResponse
      else if list_ex is_from_contact history then convo
      else messaged)"

text \<open>
  Modelled from the spec: the message history of a contact, the messages that belong
  to it (section 3); the query is missing.
\<close>

definition contact_messages :: "store \<Rightarrow> nat \<Rightarrow> message list" where
  "contact_messages st cid = [m \<leftarrow> messages st. campaign_contact_id m = cid]"

text \<open>
  Modelled from the spec: an opt-out marks a contact by its cell number (section 3);
  the lookup is missing.
\<close>

definition opted_out :: "store \<Rightarrow> campaign_contact \<Rightarrow> bool" where
  "opted_out st c = (contact_cell c \<in> set (opt_outs st))"

text \<open>
  Modelled from the spec: the \<^verbatim>\<open>message_status\<close> of a contact is the pure function
  of section 4.1, recomputed on read; the column and the code that keeps it are missing.
\<close>

definition message_status :: "store \<Rightarrow> campaign_contact \<Rightarrow> message_status" where
  "message_status st c =
     compute_message_status (opted_out st c) (contact_messages st (contact_id c))"

text \<open>
  Modelled from the spec: the contact as the GraphQL API returns it, with the fields the
  tests read (\<^verbatim>\<open>id\<close>, \<^verbatim>\<open>messageStatus\<close>, \<^verbatim>\<open>messages\<close>, \<^verbatim>\<open>optOut\<close>); the
  schema is missing. \<open>view_optOut\<close> is the field \<^verbatim>\<open>optOut\<close>: null without an
  opt-out, and with one an object, given here by its id \<^verbatim>\<open>optout\<close> (the test at
  line 364).
\<close>

record contact_view =
  view_id :: nat
  messageStatus :: message_status
  view_messages :: "message list"
  view_optOut :: "string option"

text \<open>
  Modelled from the spec: what a read of a contact returns, the status being recomputed
  on the read (section 4.1); the resolver of the contact type is missing.
\<close>

definition view :: "store \<Rightarrow> campaign_contact \<Rightarrow> contact_view" where
  "view st c =
     \<lparr>view_id = contact_id c,
      messageStatus = message_status st c,
      view_messages = contact_messages st (contact_id c),
      view_optOut = (if opted_out st c then Some ''optout'' else None)\<rparr>"

text \<open>
  Modelled from the spec: the lookup of a campaign contact by its id; the data loader
  is missing.
\<close>

definition find_contact :: "store \<Rightarrow> nat \<Rightarrow> campaign_contact option" where
  "find_contact st cid = find (\<lambda>c. contact_id c = cid) (campaign_contacts st)"

text \<open>
  Modelled from the spec: the mutation \<^verbatim>\<open>sendMessage\<close> (sections 2 and 6), whose
  resolver is missing. It records an outbound message of the contact, not yet marked
  by the provider, and returns the contact; it fails for an id that no contact has.
\<close>

definition sendMessage :: "store \<Rightarrow> nat \<Rightarrow> string \<Rightarrow> nat \<Rightarrow> (store \<times> contact_view) option" where
  "sendMessage st cid txt aid =
     (case find_contact st cid of
        None \<Rightarrow> None
      | Some c \<Rightarrow>
          (let st' = st\<lparr>messages := messages st @
                 [\<lparr>message_text = txt, is_from_contact = False, send_status = QUEUED,
                   message_assignment_id = aid, campaign_contact_id = cid\<rparr>]\<rparr>
           in Some (st', view st' c)))"

text \<open>
  Modelled from the spec: the background job (section 2; the fake service of the
  tests) that marks the messages it has sent as SENT; the service is missing.
\<close>

definition markSent :: "store \<Rightarrow> store" where
  "markSent st =
     st\<lparr>messages :=
          map (\<lambda>m. if \<not> is_from_contact m \<and> send_status m = QUEUED
                    then m\<lparr>send_status := SENT\<rparr> else m)
            (messages st)\<rparr>"

text \<open>
  Modelled from the spec: the ingestion of an inbound reply (section 2), missing from
  the sources. It records an inbound message of the contact, which the tests find
  with the send status DELIVERED; it fails for an id that no contact has.
\<close>

definition receiveMessage :: "store \<Rightarrow> nat \<Rightarrow> string \<Rightarrow> nat \<Rightarrow> store option" where
  "receiveMessage st cid txt aid =
     (case find_contact st cid of
        None \<Rightarrow> None
      | Some c \<Rightarrow>
          Some (st\<lparr>messages := messages st @
                 [\<lparr>message_text = txt, is_from_contact = True, send_status = DELIVERED,
                   message_assignment_id = aid, campaign_contact_id = cid\<rparr>]\<rparr>))"

text \<open>
  Modelled from the spec: the mutation \<^verbatim>\<open>createOptOut\<close> (sections 3 and 6), whose
  resolver is missing. It records an opt-out for the cell number.
\<close>

definition createOptOut :: "store \<Rightarrow> string \<Rightarrow> store" where
  "createOptOut st cellNumber = st\<lparr>opt_outs := cellNumber # opt_outs st\<rparr>"

text \<open>
  Modelled from the spec: the query \<^verbatim>\<open>getAssignmentContacts\<close> (section 6), whose
  resolver is missing. It returns, for the ids asked for and in their order, the
  contacts that belong to the assignment.
\<close>

definition getAssignmentContacts :: "store \<Rightarrow> nat \<Rightarrow> nat list \<Rightarrow> contact_view list" where
  "getAssignmentContacts st aid contactIds =
     List.map_filter
       (\<lambda>cid. case find_contact st cid of
                 None \<Rightarrow> None
               | Some c \<Rightarrow> if assignment_id c = Some aid then Some (view st c) else None)
       contactIds"

text \<open>
  Modelled from the spec: the operations on the message history of the contacts
  (section 2), as one step function over the store; an operation that fails leaves
  the store as it is.
\<close>

datatype operation =
    SendMessage nat string nat
  | ReceiveMessage nat string nat
  | MarkSent
  | CreateOptOut string

fun step :: "store \<Rightarrow> operation \<Rightarrow> store" where
  "step st (SendMessage cid txt aid) =
     (case sendMessage st cid txt aid of None \<Rightarrow> st | Some (st', v) \<Rightarrow> st')"
| "step st (ReceiveMessage cid txt aid) =
     (case receiveMessage st cid txt aid of None \<Rightarrow> st | Some st' \<Rightarrow> st')"
| "step st MarkSent = markSent st"
| "step st (CreateOptOut cellNumber) = createOptOut st cellNumber"

section \<open>Example data\<close>

text \<open>
  A gVIRS instance: segment 1 holds Ann and Bob, segment 2 holds a later record for
  Ann's number, segment 3 is empty and every other segment is unreachable.
  \<open>JSON_parse\<close> decodes the texts that the examples use.
\<close>

definition ann :: contact_record where
  "ann = \<lparr>cell = ''+15551230001'', contact_campaign_id = 7,
          columns = [(''first_name'', ''Ann'')]\<rparr>"

definition bob :: contact_record where
  "bob = \<lparr>cell = ''+15551230002'', contact_campaign_id = 7,
          columns = [(''first_name'', ''Bob'')]\<rparr>"

definition anne :: contact_record where
  "anne = \<lparr>cell = ''+15551230001'', contact_campaign_id = 7,
           columns = [(''first_name'', ''Anne'')]\<rparr>"

definition example_env :: env where
  \<open>example_env =
     \<lparr>JSON_parse = (\<lambda>t.
        if t = ''{"segmentIds":[{"id":1},{"id":2}]}''
        then Some (JObj [(''segmentIds'',
               JArr [JObj [(''id'', JNum 1)], JObj [(''id'', JNum 2)]])])
        else if t = ''{"segmentIds":[{"id":3}]}''
        then Some (JObj [(''segmentIds'', JArr [JObj [(''id'', JNum 3)]])])
        else if t = ''{"segmentIds":[{"id":4}]}''
        then Some (JObj [(''segmentIds'', JArr [JObj [(''id'', JNum 4)]])])
        else if t = ''{"name":"Example Org"}''
        then Some (JObj [(''name'', JStr ''Example Org'')])
        else if t = ''{}''
        then Some (JObj [])
        else if t = ''null''
        then Some JNull
        else None),
      getSegmentContacts = (\<lambda>sid campaignId org.
        if sid = Some (JNum 1) then Inr [ann, bob]
        else if sid = Some (JNum 2) then Inr [anne]
        else if sid = Some (JNum 3) then Inr []
        else Inl (Rejected (JStr ''gVIRS unreachable''))),
      searchSegments = (\<lambda>q nm.
        if q = ''north'' then Inr (JArr [JObj [(''id'', JNum 1)]])
        else Inl (JStr ''gVIRS unreachable'')),
      GVIRS_MINQUERY_SIZE = 3\<rparr>\<close>

definition example_org :: organization where
  "example_org = \<lparr>name = ''Example Org''\<rparr>"

definition two_segments_job :: job where
  \<open>two_segments_job = \<lparr>campaign_id = 7, payload = ''{"segmentIds":[{"id":1},{"id":2}]}''\<rparr>\<close>

definition empty_segment_job :: job where
  \<open>empty_segment_job = \<lparr>campaign_id = 7, payload = ''{"segmentIds":[{"id":3}]}''\<rparr>\<close>

definition unreachable_segment_job :: job where
  \<open>unreachable_segment_job = \<lparr>campaign_id = 7, payload = ''{"segmentIds":[{"id":4}]}''\<rparr>\<close>

definition old_table :: "contact_record list" where
  "old_table =
     [\<lparr>cell = ''+15551230009'', contact_campaign_id = 7, columns = []\<rparr>,
      \<lparr>cell = ''+15551230001'', contact_campaign_id = 8, columns = []\<rparr>]"

text \<open>
  A second gVIRS instance, for two more loads: one over segments 1, 2 and the
  unreachable segment 4, and one over segment 5, which holds two records whose cell
  is the text \<^verbatim>\<open>__proto__\<close> and Bob.
\<close>

definition stray_one :: contact_record where
  "stray_one = \<lparr>cell = ''__proto__'', contact_campaign_id = 7,
                columns = [(''first_name'', ''Cy'')]\<rparr>"

definition stray_two :: contact_record where
  "stray_two = \<lparr>cell = ''__proto__'', contact_campaign_id = 7,
                columns = [(''first_name'', ''Di'')]\<rparr>"

definition duplicates_env :: env where
  \<open>duplicates_env =
     example_env
       \<lparr>JSON_parse := (\<lambda>t.
          if t = ''{"segmentIds":[{"id":1},{"id":2},{"id":4}]}''
          then Some (JObj [(''segmentIds'',
                 JArr [JObj [(''id'', JNum 1)], JObj [(''id'', JNum 2)],
                       JObj [(''id'', JNum 4)]])])
          else if t = ''{"segmentIds":[{"id":5}]}''
          then Some (JObj [(''segmentIds'', JArr [JObj [(''id'', JNum 5)]])])
          else JSON_parse example_env t),
        getSegmentContacts := (\<lambda>sid campaignId org.
          if sid = Some (JNum 5) then Inr [stray_one, stray_two, bob]
          else getSegmentContacts example_env sid campaignId org)\<rparr>\<close>

definition rejected_tail_job :: job where
  \<open>rejected_tail_job =
     \<lparr>campaign_id = 7, payload = ''{"segmentIds":[{"id":1},{"id":2},{"id":4}]}''\<rparr>\<close>

definition stray_job :: job where
  \<open>stray_job = \<lparr>campaign_id = 7, payload = ''{"segmentIds":[{"id":5}]}''\<rparr>\<close>

text \<open>
  Requests to the endpoint: one that is not authenticated, and authenticated ones with
  a short query, with client choice data without a name, with a search that gVIRS
  rejects, without the parameter \<^verbatim>\<open>query\<close>, and with client choice data that
  decode to \<^verbatim>\<open>null\<close>.
\<close>

definition anonymous_request :: request where
  \<open>anonymous_request =
     \<lparr>isAuthenticated = False, query = Some ''north'',
      clientchoicedata = Some ''{"name":"Example Org"}''\<rparr>\<close>

definition short_request :: request where
  \<open>short_request =
     \<lparr>isAuthenticated = True, query = Some ''no'',
      clientchoicedata = Some ''{"name":"Example Org"}''\<rparr>\<close>

definition nameless_request :: request where
  \<open>nameless_request =
     \<lparr>isAuthenticated = True, query = Some ''north'', clientchoicedata = Some ''{}''\<rparr>\<close>

definition failing_request :: request where
  \<open>failing_request =
     \<lparr>isAuthenticated = True, query = Some ''south'',
      clientchoicedata = Some ''{"name":"Example Org"}''\<rparr>\<close>

definition queryless_request :: request where
  \<open>queryless_request =
     \<lparr>isAuthenticated = True, query = None, clientchoicedata = Some ''{}''\<rparr>\<close>

definition null_data_request :: request where
  \<open>null_data_request =
     \<lparr>isAuthenticated = True, query = Some ''north'', clientchoicedata = Some ''null''\<rparr>\<close>

text \<open>
  A store with two contacts of one assignment and no message yet, and the same store
  with an opt-out for the first contact's number.
\<close>

definition example_contact :: campaign_contact where
  "example_contact =
     \<lparr>contact_id = 1, contact_cell = ''+15551230001'', contact_campaign = 7,
      assignment_id = Some 5\<rparr>"

definition example_store :: store where
  "example_store =
     \<lparr>campaign_contacts =
        [example_contact,
         \<lparr>contact_id = 2, contact_cell = ''+15551230002'', contact_campaign = 7,
          assignment_id = Some 5\<rparr>],
      messages = [],
      opt_outs = []\<rparr>"

definition opted_out_store :: store where
  "opted_out_store = example_store\<lparr>opt_outs := [''+15551230001'']\<rparr>"

section \<open>Properties of the property lists\<close>

lemma map_of_assign: "map_of (assign k v obj) = (map_of obj)(k \<mapsto> v)"
  by (induction obj) auto

lemma keys_assign: "fst ` set (assign k v obj) = insert k (fst ` set obj)"
  by (induction obj) auto

lemma distinct_assign: "distinct (map fst obj) \<Longrightarrow> distinct (map fst (assign k v obj))"
  by (induction obj) (auto simp: keys_assign)

lemma set_assign: "set (assign k v obj) \<subseteq> insert (k, v) (set obj)"
  by (induction obj) auto

lemma keyed_Nil: "keyed []"
  by (simp add: keyed_def)

lemma keyed_obj_set: "keyed obj \<Longrightarrow> keyed (obj_set obj (cell r) r)"
  using set_assign [of "cell r" r obj]
  by (auto simp: keyed_def obj_set_def distinct_assign list_all_iff)

lemma keyed_add_contacts: "keyed obj \<Longrightarrow> keyed (add_contacts obj rs)"
  by (induction rs arbitrary: obj) (simp_all add: keyed_obj_set)

lemma map_of_add_contacts:
  "map_of (add_contacts obj rs) c =
     (if c \<noteq> ''__proto__'' \<and> [r \<leftarrow> rs. cell r = c] \<noteq> []
      then Some (last [r \<leftarrow> rs. cell r = c]) else map_of obj c)"
  by (induction rs arbitrary: obj) (auto simp: obj_set_def map_of_assign)

lemma keyed_filter_absent:
  "list_all (\<lambda>p. fst p = cell (snd p)) obj \<Longrightarrow> c \<notin> fst ` set obj \<Longrightarrow>
     [r \<leftarrow> map snd obj. cell r = c] = []"
  by (induction obj) (auto simp: image_iff)

lemma keyed_filter:
  "keyed obj \<Longrightarrow>
     [r \<leftarrow> map snd obj. cell r = c] = (case map_of obj c of None \<Rightarrow> [] | Some r \<Rightarrow> [r])"
proof (induction obj)
  case Nil
  then show ?case by simp
next
  case (Cons p ps)
  from Cons.prems have k: "keyed ps"
    by (auto simp: keyed_def)
  from Cons.prems have fp: "fst p = cell (snd p)"
    by (auto simp: keyed_def)
  from k have al: "list_all (\<lambda>p. fst p = cell (snd p)) ps"
    by (simp add: keyed_def)
  from Cons.prems have "distinct (map fst (p # ps))"
    unfolding keyed_def by (rule conjunct1)
  then have np: "fst p \<notin> fst ` set ps"
    by simp
  show ?case
  proof (cases "fst p = c")
    case True
    with np al have "[r \<leftarrow> map snd ps. cell r = c] = []"
      by (simp add: keyed_filter_absent)
    with True fp show ?thesis by (cases p) auto
  next
    case False
    with fp Cons.IH [OF k] show ?thesis by (cases p) auto
  qed
qed

lemma mset_Object_values: "mset (Object_values obj) = mset (map snd obj)"
proof -
  have "mset (Object_values obj) =
      image_mset snd (mset [p \<leftarrow> obj. is_array_index (fst p)]
        + mset [p \<leftarrow> obj. \<not> is_array_index (fst p)])"
    by (simp add: Object_values_def del: mset_filter)
  also have "\<dots> = image_mset snd (mset obj)"
    using multiset_partition [of "mset obj" "\<lambda>p. is_array_index (fst p)"] by simp
  finally show ?thesis by simp
qed

lemma filter_Object_values:
  assumes "[r \<leftarrow> map snd obj. P r] = [] \<or> (\<exists>x. [r \<leftarrow> map snd obj. P r] = [x])"
  shows "[r \<leftarrow> Object_values obj. P r] = [r \<leftarrow> map snd obj. P r]"
proof -
  have m: "mset [r \<leftarrow> Object_values obj. P r] = mset [r \<leftarrow> map snd obj. P r]"
    by (simp only: mset_filter mset_Object_values)
  from assms show ?thesis
  proof
    assume e: "[r \<leftarrow> map snd obj. P r] = []"
    with m show ?thesis by simp
  next
    assume "\<exists>x. [r \<leftarrow> map snd obj. P r] = [x]"
    then obtain x where e: "[r \<leftarrow> map snd obj. P r] = [x]" ..
    from m have "mset [r \<leftarrow> Object_values obj. P r] = {#x#}"
      by (simp only: e mset.simps add_mset_commute)
    then have "[r \<leftarrow> Object_values obj. P r] = [x]"
      by (simp only: mset_single_iff)
    with e show ?thesis by simp
  qed
qed

lemma dedup_filter:
  "[r \<leftarrow> Object_values (add_contacts [] rs). cell r = c] =
     (if c \<noteq> ''__proto__'' \<and> [r \<leftarrow> rs. cell r = c] \<noteq> []
      then [last [r \<leftarrow> rs. cell r = c]] else [])"
proof -
  have k: "keyed (add_contacts [] rs)"
    by (simp add: keyed_add_contacts keyed_Nil)
  have f: "[r \<leftarrow> map snd (add_contacts [] rs). cell r = c] =
     (if c \<noteq> ''__proto__'' \<and> [r \<leftarrow> rs. cell r = c] \<noteq> []
      then [last [r \<leftarrow> rs. cell r = c]] else [])"
    by (simp add: keyed_filter [OF k] map_of_add_contacts)
  then have "[r \<leftarrow> Object_values (add_contacts [] rs). cell r = c] =
      [r \<leftarrow> map snd (add_contacts [] rs). cell r = c]"
    by (intro filter_Object_values) (simp split: if_splits)
  with f show ?thesis by simp
qed

lemma distinct_cells_dedup: "distinct (map cell (Object_values (add_contacts [] rs)))"
proof -
  have k: "keyed (add_contacts [] rs)"
    by (simp add: keyed_add_contacts keyed_Nil)
  then have d: "distinct (map fst (add_contacts [] rs))"
    by (simp add: keyed_def)
  from k have "map cell (map snd (add_contacts [] rs)) = map fst (add_contacts [] rs)"
    by (auto simp: keyed_def list_all_iff)
  with d have "distinct (map cell (map snd (add_contacts [] rs)))"
    by (simp only:)
  moreover have "mset (map cell (Object_values (add_contacts [] rs)))
      = mset (map cell (map snd (add_contacts [] rs)))"
    using mset_Object_values [of "add_contacts [] rs"] by (metis mset_map)
  ultimately show ?thesis
    by (metis mset_eq_imp_distinct_iff)
qed

section \<open>Properties of processContactLoad\<close>

lemma add_contacts_append:
  "add_contacts obj (xs @ ys) = add_contacts (add_contacts obj xs) ys"
  by (induction xs arbitrary: obj) simp_all

lemma load_segments_resolved:
  "list_all2 (fetch_resolved e cid org) segments fetches \<Longrightarrow>
     load_segments e cid org segments obj
       = (fetches, Inr (add_contacts obj (fetched_records fetches)))"
proof (induction segments fetches arbitrary: obj rule: list_all2_induct)
  case Nil
  then show ?case by simp
next
  case (Cons segment segments ev fetches)
  from Cons.hyps(1) obtain sid rs where
    "js_get segment ''id'' = Inr sid" "getSegmentContacts e sid cid org = Inr rs"
    "ev = GetSegmentContacts sid cid org (Inr rs)"
    by (auto simp: fetch_resolved_def split: sum.splits)
  with Cons.IH [of "add_contacts obj rs"] show ?case
    by (simp add: add_contacts_append)
qed

lemma js_get_other_key: "js_get v k = Inr x \<Longrightarrow> \<exists>y. js_get v k' = Inr y"
  by (cases v) simp_all


lemma fetched_records_append:
  "fetched_records (xs @ ys) = fetched_records xs @ fetched_records ys"
  by (induction xs rule: fetched_records.induct) simp_all

lemma inserted_records_append:
  "inserted_records (xs @ ys) = inserted_records xs @ inserted_records ys"
  by (induction xs rule: inserted_records.induct) simp_all

lemma fetches_only:
  "list_all2 (fetch_resolved e cid org) segments fetches \<Longrightarrow>
     inserted_records fetches = [] \<and> \<not> list_ex is_batch_insert fetches
     \<and> \<not> list_ex is_complete fetches"
proof (induction segments fetches rule: list_all2_induct)
  case Nil
  then show ?case by simp
next
  case (Cons segment segments ev fetches)
  from Cons.hyps(1) obtain sid rs where "ev = GetSegmentContacts sid cid org (Inr rs)"
    by (auto simp: fetch_resolved_def split: sum.splits)
  with Cons.IH show ?case by simp
qed

lemma processContactLoad_resolved:
  assumes "payload_segments e jb = Some segments"
    and "list_all2 (fetch_resolved e (campaign_id jb) (name org)) segments fetches"
    and "recs = Object_values (add_contacts [] (fetched_records fetches))"
  shows "processContactLoad e jb maxContacts org tbl =
     \<lparr>outcome = None,
      events = Delete (campaign_id jb) # fetches
        @ (if recs = [] then [] else [BatchInsert recs (length recs)])
        @ [CompleteContactLoad jb (payload_segmentId e jb) (length recs)],
      table = [row \<leftarrow> tbl. contact_campaign_id row \<noteq> campaign_id jb] @ recs\<rparr>"
proof -
  from assms(1) obtain contactData segmentIds where
    p: "JSON_parse e (payload jb) = Some contactData"
    and g: "js_get contactData ''segmentIds'' = Inr segmentIds"
    and i: "js_iterate segmentIds = Inr segments"
    by (auto simp: payload_segments_def split: option.splits sum.splits)
  from g obtain segmentId where s: "js_get contactData ''segmentId'' = Inr segmentId"
    using js_get_other_key by blast
  with p have sid: "payload_segmentId e jb = segmentId"
    by (simp add: payload_segmentId_def)
  from p g i s sid assms(3) load_segments_resolved [OF assms(2), of "[]"]
  show ?thesis
    by (simp add: processContactLoad_def Let_def)
qed

text \<open>
  Claim C5, as amended. Take a contact load whose payload decodes and whose fetches
  all resolve.
  The records handed to \<^verbatim>\<open>batchInsert\<close> are the rows added to the table, no two
  of them share a cell, and for every cell \<open>c\<close> there is exactly one inserted record
  with that cell when a fetched record has it, namely the last fetched record with that
  cell in the order of iteration over all segments, and none otherwise. The key
  \<^verbatim>\<open>__proto__\<close>, which no phone number is, is set apart: an assignment to it
  stores nothing.
\<close>

theorem processContactLoad_last_record_wins:
  assumes "payload_segments e jb = Some segments"
    and "list_all2 (fetch_resolved e (campaign_id jb) (name org)) segments fetches"
  shows "let run = processContactLoad e jb maxContacts org tbl;
             fetched = fetched_records (events run);
             inserted = inserted_records (events run)
         in fetched = fetched_records fetches
          \<and> table run = [row \<leftarrow> tbl. contact_campaign_id row \<noteq> campaign_id jb] @ inserted
          \<and> distinct (map cell inserted)
          \<and> (\<forall>c. c \<noteq> ''__proto__'' \<longrightarrow>
                [r \<leftarrow> inserted. cell r = c] =
                  (if [r \<leftarrow> fetched. cell r = c] = [] then []
                   else [last [r \<leftarrow> fetched. cell r = c]]))"
proof -
  define recs where "recs = Object_values (add_contacts [] (fetched_records fetches))"
  note run = processContactLoad_resolved [OF assms recs_def, of maxContacts tbl]
  from fetches_only [OF assms(2)] have ins: "inserted_records fetches = []"
    by simp
  have f: "fetched_records (events (processContactLoad e jb maxContacts org tbl))
      = fetched_records fetches"
    by (simp add: run fetched_records_append)
  have i: "inserted_records (events (processContactLoad e jb maxContacts org tbl)) = recs"
    by (simp add: run inserted_records_append ins)
  have t: "table (processContactLoad e jb maxContacts org tbl)
      = [row \<leftarrow> tbl. contact_campaign_id row \<noteq> campaign_id jb] @ recs"
    by (simp add: run)
  have d: "distinct (map cell recs)"
    unfolding recs_def by (rule distinct_cells_dedup)
  have l: "\<forall>c. c \<noteq> ''__proto__'' \<longrightarrow>
      [r \<leftarrow> recs. cell r = c] =
        (if [r \<leftarrow> fetched_records fetches. cell r = c] = [] then []
         else [last [r \<leftarrow> fetched_records fetches. cell r = c]])"
    unfolding recs_def by (simp add: dedup_filter)
  from f i t d l show ?thesis
    by (simp only: Let_def)
qed

text \<open>
  The load of segments 1 and 2: Ann's number comes with both segments, and the record
  of segment 2 is the one inserted.
\<close>

lemma example_two_segments:
  "payload_segments example_env two_segments_job
     = Some [JObj [(''id'', JNum 1)], JObj [(''id'', JNum 2)]]"
  by (simp add: payload_segments_def example_env_def two_segments_job_def)

lemma example_two_fetches:
  "list_all2 (fetch_resolved example_env (campaign_id two_segments_job) (name example_org))
     [JObj [(''id'', JNum 1)], JObj [(''id'', JNum 2)]]
     [GetSegmentContacts (Some (JNum 1)) 7 ''Example Org'' (Inr [ann, bob]),
      GetSegmentContacts (Some (JNum 2)) 7 ''Example Org'' (Inr [anne])]"
  by (simp add: fetch_resolved_def example_env_def two_segments_job_def example_org_def)

lemma example_two_run:
  "processContactLoad example_env two_segments_job 0 example_org old_table =
     \<lparr>outcome = None,
      events = [Delete 7,
        GetSegmentContacts (Some (JNum 1)) 7 ''Example Org'' (Inr [ann, bob]),
        GetSegmentContacts (Some (JNum 2)) 7 ''Example Org'' (Inr [anne]),
        BatchInsert [anne, bob] 2,
        CompleteContactLoad two_segments_job None 2],
      table = [\<lparr>cell = ''+15551230001'', contact_campaign_id = 8, columns = []\<rparr>, anne, bob]\<rparr>"
  by (simp add: processContactLoad_def example_env_def two_segments_job_def example_org_def
      old_table_def obj_set_def Object_values_def is_array_index_def array_index_def
      is_digit_def ann_def bob_def anne_def Let_def)

theorem processContactLoad_last_record_wins_witness:
  "payload_segments example_env two_segments_job
     = Some [JObj [(''id'', JNum 1)], JObj [(''id'', JNum 2)]]
   \<and> list_all2 (fetch_resolved example_env (campaign_id two_segments_job) (name example_org))
       [JObj [(''id'', JNum 1)], JObj [(''id'', JNum 2)]]
       [GetSegmentContacts (Some (JNum 1)) 7 ''Example Org'' (Inr [ann, bob]),
        GetSegmentContacts (Some (JNum 2)) 7 ''Example Org'' (Inr [anne])]
   \<and> fetched_records
        (events (processContactLoad example_env two_segments_job 0 example_org old_table))
       = [ann, bob, anne]
   \<and> inserted_records
        (events (processContactLoad example_env two_segments_job 0 example_org old_table))
       = [anne, bob]
   \<and> [r \<leftarrow> inserted_records
          (events (processContactLoad example_env two_segments_job 0 example_org old_table)).
        cell r = ''+15551230001''] = [anne]"
proof -
  note w = processContactLoad_last_record_wins
    [OF example_two_segments example_two_fetches, of 0 old_table]
  have c: "cell ann = ''+15551230001''" "cell anne = ''+15551230001''"
    "cell bob = ''+15551230002''"
    by (simp_all add: ann_def anne_def bob_def)
  have f: "fetched_records
      (events (processContactLoad example_env two_segments_job 0 example_org old_table))
      = [ann, bob, anne]"
    by (simp add: example_two_run)
  have i: "inserted_records
      (events (processContactLoad example_env two_segments_job 0 example_org old_table))
      = [anne, bob]"
    by (simp add: example_two_run)
  from w have l: "[r \<leftarrow> inserted_records
          (events (processContactLoad example_env two_segments_job 0 example_org old_table)).
        cell r = ''+15551230001''] = [anne]"
    by (simp add: Let_def c)
  show ?thesis
    using example_two_segments example_two_fetches f i l by (intro conjI)
qed

text \<open>
  Claim C5 as it is stated fails on two loads. In the first, Ann's number is fetched
  with segments 1 and 2 and the fetch of segment 4 rejects: the run ends there and no
  record is inserted. In the second, two fetched records share the cell
  \<^verbatim>\<open>__proto__\<close>: the run resolves and inserts Bob alone, no record with that cell.
\<close>

theorem processContactLoad_last_record_wins_counterexample:
  "processContactLoad duplicates_env rejected_tail_job 0 example_org old_table =
     \<lparr>outcome = Some (Rejected (JStr ''gVIRS unreachable'')),
      events = [Delete 7,
        GetSegmentContacts (Some (JNum 1)) 7 ''Example Org'' (Inr [ann, bob]),
        GetSegmentContacts (Some (JNum 2)) 7 ''Example Org'' (Inr [anne]),
        GetSegmentContacts (Some (JNum 4)) 7 ''Example Org''
          (Inl (Rejected (JStr ''gVIRS unreachable'')))],
      table = [\<lparr>cell = ''+15551230001'', contact_campaign_id = 8, columns = []\<rparr>]\<rparr>
   \<and> cell ann = cell anne
   \<and> inserted_records
        (events (processContactLoad duplicates_env rejected_tail_job 0 example_org old_table))
       = []
   \<and> processContactLoad duplicates_env stray_job 0 example_org old_table =
     \<lparr>outcome = None,
      events = [Delete 7,
        GetSegmentContacts (Some (JNum 5)) 7 ''Example Org''
          (Inr [stray_one, stray_two, bob]),
        BatchInsert [bob] 1,
        CompleteContactLoad stray_job None 1],
      table = [\<lparr>cell = ''+15551230001'', contact_campaign_id = 8, columns = []\<rparr>, bob]\<rparr>
   \<and> cell stray_one = ''__proto__'' \<and> cell stray_two = ''__proto__''
   \<and> inserted_records
        (events (processContactLoad duplicates_env stray_job 0 example_org old_table))
       = [bob]"
proof -
  have c: "cell ann = ''+15551230001''" "cell anne = ''+15551230001''"
    "cell bob = ''+15551230002''" "cell stray_one = ''__proto__''"
    "cell stray_two = ''__proto__''"
    by (simp_all add: ann_def anne_def bob_def stray_one_def stray_two_def)
  have r1: "processContactLoad duplicates_env rejected_tail_job 0 example_org old_table =
     \<lparr>outcome = Some (Rejected (JStr ''gVIRS unreachable'')),
      events = [Delete 7,
        GetSegmentContacts (Some (JNum 1)) 7 ''Example Org'' (Inr [ann, bob]),
        GetSegmentContacts (Some (JNum 2)) 7 ''Example Org'' (Inr [anne]),
        GetSegmentContacts (Some (JNum 4)) 7 ''Example Org''
          (Inl (Rejected (JStr ''gVIRS unreachable'')))],
      table = [\<lparr>cell = ''+15551230001'', contact_campaign_id = 8, columns = []\<rparr>]\<rparr>"
    by (simp add: processContactLoad_def duplicates_env_def example_env_def
        rejected_tail_job_def example_org_def old_table_def Let_def)
  have r2: "processContactLoad duplicates_env stray_job 0 example_org old_table =
     \<lparr>outcome = None,
      events = [Delete 7,
        GetSegmentContacts (Some (JNum 5)) 7 ''Example Org''
          (Inr [stray_one, stray_two, bob]),
        BatchInsert [bob] 1,
        CompleteContactLoad stray_job None 1],
      table = [\<lparr>cell = ''+15551230001'', contact_campaign_id = 8, columns = []\<rparr>, bob]\<rparr>"
    by (simp add: processContactLoad_def duplicates_env_def example_env_def
        stray_job_def example_org_def old_table_def Let_def c obj_set_def Object_values_def
        is_array_index_def array_index_def is_digit_def)
  have i1: "inserted_records
      (events (processContactLoad duplicates_env rejected_tail_job 0 example_org old_table))
      = []"
    by (simp add: r1)
  have i2: "inserted_records
      (events (processContactLoad duplicates_env stray_job 0 example_org old_table)) = [bob]"
    by (simp add: r2)
  have e: "cell ann = cell anne"
    by (simp add: c)
  from r1 e i1 r2 c(4) c(5) i2 show ?thesis
    by (intro conjI)
qed

text \<open>
  Claim C6, as amended. For every job whose payload decodes to a value with an
  iterable \<^verbatim>\<open>segmentIds\<close> and whose fetches all resolve, the run resolves and makes
  these calls in this order: the delete of the campaign's rows; one fetch for each
  segment, in the order of the payload; one batch insert of the deduplicated records
  when there is at least one, and none when there is none; one call of
  \<^verbatim>\<open>completeContactLoad\<close>, with the count of the records. The table ends as the
  rows of the other campaigns followed by the deduplicated records.
\<close>

theorem processContactLoad_steps:
  assumes "payload_segments e jb = Some segments"
    and "list_all2 (fetch_resolved e (campaign_id jb) (name org)) segments fetches"
  shows "let recs = Object_values (add_contacts [] (fetched_records fetches)) in
     processContactLoad e jb maxContacts org tbl =
       \<lparr>outcome = None,
        events = Delete (campaign_id jb) # fetches
          @ (if recs = [] then [] else [BatchInsert recs (length recs)])
          @ [CompleteContactLoad jb (payload_segmentId e jb) (length recs)],
        table = [row \<leftarrow> tbl. contact_campaign_id row \<noteq> campaign_id jb] @ recs\<rparr>
     \<and> filter is_complete (events (processContactLoad e jb maxContacts org tbl))
         = [CompleteContactLoad jb (payload_segmentId e jb) (length recs)]"
proof -
  note run = processContactLoad_resolved [OF assms refl, of maxContacts tbl]
  from fetches_only [OF assms(2)] have "filter is_complete fetches = []"
    by (simp add: list_ex_iff filter_empty_conv)
  then have "filter is_complete (events (processContactLoad e jb maxContacts org tbl))
      = [CompleteContactLoad jb (payload_segmentId e jb)
          (length (Object_values (add_contacts [] (fetched_records fetches))))]"
    by (simp add: run)
  with run show ?thesis
    by (simp only: Let_def simp_thms)
qed

theorem processContactLoad_steps_witness:
  "payload_segments example_env two_segments_job
     = Some [JObj [(''id'', JNum 1)], JObj [(''id'', JNum 2)]]
   \<and> list_all2 (fetch_resolved example_env (campaign_id two_segments_job) (name example_org))
       [JObj [(''id'', JNum 1)], JObj [(''id'', JNum 2)]]
       [GetSegmentContacts (Some (JNum 1)) 7 ''Example Org'' (Inr [ann, bob]),
        GetSegmentContacts (Some (JNum 2)) 7 ''Example Org'' (Inr [anne])]
   \<and> processContactLoad example_env two_segments_job 0 example_org old_table =
     \<lparr>outcome = None,
      events = [Delete 7,
        GetSegmentContacts (Some (JNum 1)) 7 ''Example Org'' (Inr [ann, bob]),
        GetSegmentContacts (Some (JNum 2)) 7 ''Example Org'' (Inr [anne]),
        BatchInsert [anne, bob] 2,
        CompleteContactLoad two_segments_job None 2],
      table = [\<lparr>cell = ''+15551230001'', contact_campaign_id = 8, columns = []\<rparr>, anne, bob]\<rparr>"
proof -
  have c: "cell ann = ''+15551230001''" "cell anne = ''+15551230001''"
    "cell bob = ''+15551230002''"
    by (simp_all add: ann_def anne_def bob_def)
  have r: "Object_values (add_contacts []
      (fetched_records
        [GetSegmentContacts (Some (JNum 1)) 7 ''Example Org'' (Inr [ann, bob]),
         GetSegmentContacts (Some (JNum 2)) 7 ''Example Org'' (Inr [anne])])) = [anne, bob]"
    by (simp add: c obj_set_def Object_values_def is_array_index_def array_index_def
        is_digit_def)
  have s: "payload_segmentId example_env two_segments_job = None"
    by (simp add: payload_segmentId_def example_env_def two_segments_job_def)
  have j: "campaign_id two_segments_job = 7"
    by (simp add: two_segments_job_def)
  have t: "[row \<leftarrow> old_table. contact_campaign_id row \<noteq> 7]
      = [\<lparr>cell = ''+15551230001'', contact_campaign_id = 8, columns = []\<rparr>]"
    by (simp add: old_table_def)
  note w = processContactLoad_steps [OF example_two_segments example_two_fetches, of 0 old_table]
  from w [unfolded Let_def r, THEN conjunct1]
  have "processContactLoad example_env two_segments_job 0 example_org old_table =
     \<lparr>outcome = None,
      events = [Delete 7,
        GetSegmentContacts (Some (JNum 1)) 7 ''Example Org'' (Inr [ann, bob]),
        GetSegmentContacts (Some (JNum 2)) 7 ''Example Org'' (Inr [anne]),
        BatchInsert [anne, bob] 2,
        CompleteContactLoad two_segments_job None 2],
      table = [\<lparr>cell = ''+15551230001'', contact_campaign_id = 8, columns = []\<rparr>, anne, bob]\<rparr>"
    by (simp add: s j t)
  with example_two_segments example_two_fetches show ?thesis
    by (intro conjI)
qed

text \<open>
  Claim C6 as it is stated fails on two jobs. The job whose one segment is empty makes
  no batch insert; the job whose segment is unreachable ends after the delete and the
  fetch, and \<^verbatim>\<open>completeContactLoad\<close> is never called.
\<close>

theorem processContactLoad_steps_counterexample:
  "processContactLoad example_env empty_segment_job 0 example_org old_table =
     \<lparr>outcome = None,
      events = [Delete 7,
        GetSegmentContacts (Some (JNum 3)) 7 ''Example Org'' (Inr []),
        CompleteContactLoad empty_segment_job None 0],
      table = [\<lparr>cell = ''+15551230001'', contact_campaign_id = 8, columns = []\<rparr>]\<rparr>
   \<and> \<not> list_ex is_batch_insert
        (events (processContactLoad example_env empty_segment_job 0 example_org old_table))
   \<and> processContactLoad example_env unreachable_segment_job 0 example_org old_table =
     \<lparr>outcome = Some (Rejected (JStr ''gVIRS unreachable'')),
      events = [Delete 7,
        GetSegmentContacts (Some (JNum 4)) 7 ''Example Org''
          (Inl (Rejected (JStr ''gVIRS unreachable'')))],
      table = [\<lparr>cell = ''+15551230001'', contact_campaign_id = 8, columns = []\<rparr>]\<rparr>
   \<and> \<not> list_ex is_complete
        (events (processContactLoad example_env unreachable_segment_job 0 example_org
           old_table))"
  by (simp add: processContactLoad_def example_env_def empty_segment_job_def
      unreachable_segment_job_def example_org_def old_table_def Object_values_def Let_def)

text \<open>
  Claim C10. For every job whose payload decodes, whose fetches all resolve and whose
  segments give no record after deduplication, the run resolves; its calls are the
  delete, the fetches and one call of \<^verbatim>\<open>completeContactLoad\<close> with the count 0,
  with no batch insert among them; and the table is left without any row of the
  campaign.
\<close>

theorem processContactLoad_no_contacts:
  assumes "payload_segments e jb = Some segments"
    and "list_all2 (fetch_resolved e (campaign_id jb) (name org)) segments fetches"
    and "Object_values (add_contacts [] (fetched_records fetches)) = []"
  shows "let run = processContactLoad e jb maxContacts org tbl in
     outcome run = None
     \<and> events run = Delete (campaign_id jb) # fetches
         @ [CompleteContactLoad jb (payload_segmentId e jb) 0]
     \<and> \<not> list_ex is_batch_insert (events run)
     \<and> length (filter is_complete (events run)) = 1
     \<and> table run = [row \<leftarrow> tbl. contact_campaign_id row \<noteq> campaign_id jb]
     \<and> \<not> list_ex (\<lambda>row. contact_campaign_id row = campaign_id jb) (table run)"
proof -
  note run = processContactLoad_resolved [OF assms(1,2) refl, of maxContacts tbl]
  from fetches_only [OF assms(2)]
  have f: "\<not> list_ex is_batch_insert fetches" "filter is_complete fetches = []"
    by (simp_all add: list_ex_iff filter_empty_conv)
  have t: "\<not> list_ex (\<lambda>row. contact_campaign_id row = campaign_id jb)
      [row \<leftarrow> tbl. contact_campaign_id row \<noteq> campaign_id jb]"
    by (simp add: list_ex_iff)
  from f t show ?thesis
    by (simp add: run assms(3) Let_def)
qed

lemma example_empty_segment:
  "payload_segments example_env empty_segment_job = Some [JObj [(''id'', JNum 3)]]"
  by (simp add: payload_segments_def example_env_def empty_segment_job_def)

lemma example_empty_fetch:
  "list_all2 (fetch_resolved example_env (campaign_id empty_segment_job) (name example_org))
     [JObj [(''id'', JNum 3)]]
     [GetSegmentContacts (Some (JNum 3)) 7 ''Example Org'' (Inr [])]"
  by (simp add: fetch_resolved_def example_env_def empty_segment_job_def example_org_def)

theorem processContactLoad_no_contacts_witness:
  "payload_segments example_env empty_segment_job = Some [JObj [(''id'', JNum 3)]]
   \<and> list_all2 (fetch_resolved example_env (campaign_id empty_segment_job) (name example_org))
       [JObj [(''id'', JNum 3)]]
       [GetSegmentContacts (Some (JNum 3)) 7 ''Example Org'' (Inr [])]
   \<and> Object_values (add_contacts []
        (fetched_records [GetSegmentContacts (Some (JNum 3)) 7 ''Example Org'' (Inr [])])) = []
   \<and> events (processContactLoad example_env empty_segment_job 0 example_org old_table) =
       [Delete 7, GetSegmentContacts (Some (JNum 3)) 7 ''Example Org'' (Inr []),
        CompleteContactLoad empty_segment_job None 0]
   \<and> table (processContactLoad example_env empty_segment_job 0 example_org old_table) =
       [\<lparr>cell = ''+15551230001'', contact_campaign_id = 8, columns = []\<rparr>]"
proof -
  have z: "Object_values (add_contacts []
      (fetched_records [GetSegmentContacts (Some (JNum 3)) 7 ''Example Org'' (Inr [])])) = []"
    by (simp add: Object_values_def)
  have s: "payload_segmentId example_env empty_segment_job = None"
    by (simp add: payload_segmentId_def example_env_def empty_segment_job_def)
  have c: "campaign_id empty_segment_job = 7"
    by (simp add: empty_segment_job_def)
  have t: "[row \<leftarrow> old_table. contact_campaign_id row \<noteq> 7]
      = [\<lparr>cell = ''+15551230001'', contact_campaign_id = 8, columns = []\<rparr>]"
    by (simp add: old_table_def)
  note w = processContactLoad_no_contacts
    [OF example_empty_segment example_empty_fetch z, of 0 old_table]
  from w have e: "events (processContactLoad example_env empty_segment_job 0 example_org
      old_table) =
       [Delete 7, GetSegmentContacts (Some (JNum 3)) 7 ''Example Org'' (Inr []),
        CompleteContactLoad empty_segment_job None 0]"
    by (simp add: Let_def s c)
  from w have u: "table (processContactLoad example_env empty_segment_job 0 example_org
      old_table) = [\<lparr>cell = ''+15551230001'', contact_campaign_id = 8, columns = []\<rparr>]"
    by (simp add: Let_def c t)
  show ?thesis
    using example_empty_segment example_empty_fetch z e u by (intro conjI)
qed

section \<open>Properties of the endpoint\<close>

text \<open>
  Claim C9, as amended. A request that is not authenticated is answered with the
  status 401 and the empty object. An authenticated request whose query string is
  shorter than \<^verbatim>\<open>GVIRS_MINQUERY_SIZE\<close>, or which carries a query string and client
  choice data that decode to an object or array without the key \<^verbatim>\<open>name\<close>, is
  answered with \<^verbatim>\<open>{ segments: [] }\<close> and no search is made. A search that was
  made and rejected is answered with \<^verbatim>\<open>{ segments: [], error }\<close>.
\<close>

theorem addServerEndpoints_replies:
  "(\<not> isAuthenticated req \<longrightarrow>
      addServerEndpoints e req = \<lparr>searched = [], answer = Response 401 (JObj [])\<rparr>)
   \<and> (isAuthenticated req \<and> query req = Some q \<and> length q < GVIRS_MINQUERY_SIZE e \<longrightarrow>
      addServerEndpoints e req =
        \<lparr>searched = [], answer = Response 200 (JObj [(''segments'', JArr [])])\<rparr>)
   \<and> (isAuthenticated req \<and> query req = Some q \<and> clientchoicedata req = Some t
        \<and> JSON_parse e t = Some d \<and> js_has_name d = Inr False \<longrightarrow>
      addServerEndpoints e req =
        \<lparr>searched = [], answer = Response 200 (JObj [(''segments'', JArr [])])\<rparr>)
   \<and> (searched (addServerEndpoints e req) = [(q', nm)] \<and> searchSegments e q' nm = Inl err \<longrightarrow>
      answer (addServerEndpoints e req) =
        Response 200 (JObj [(''segments'', JArr []), (''error'', err)]))"
proof (intro conjI impI)
  assume "\<not> isAuthenticated req"
  then show "addServerEndpoints e req = \<lparr>searched = [], answer = Response 401 (JObj [])\<rparr>"
    by (simp add: addServerEndpoints_def)
next
  assume "isAuthenticated req \<and> query req = Some q \<and> length q < GVIRS_MINQUERY_SIZE e"
  then show "addServerEndpoints e req =
      \<lparr>searched = [], answer = Response 200 (JObj [(''segments'', JArr [])])\<rparr>"
    by (simp add: addServerEndpoints_def)
next
  assume "isAuthenticated req \<and> query req = Some q \<and> clientchoicedata req = Some t
        \<and> JSON_parse e t = Some d \<and> js_has_name d = Inr False"
  then show "addServerEndpoints e req =
      \<lparr>searched = [], answer = Response 200 (JObj [(''segments'', JArr [])])\<rparr>"
    by (simp add: addServerEndpoints_def)
next
  assume "searched (addServerEndpoints e req) = [(q', nm)] \<and> searchSegments e q' nm = Inl err"
  then show "answer (addServerEndpoints e req) =
      Response 200 (JObj [(''segments'', JArr []), (''error'', err)])"
    by (auto simp: addServerEndpoints_def Let_def
        split: if_splits option.splits sum.splits bool.splits)
qed

theorem addServerEndpoints_replies_witness:
  "addServerEndpoints example_env anonymous_request
     = \<lparr>searched = [], answer = Response 401 (JObj [])\<rparr>
   \<and> addServerEndpoints example_env short_request
     = \<lparr>searched = [], answer = Response 200 (JObj [(''segments'', JArr [])])\<rparr>
   \<and> addServerEndpoints example_env nameless_request
     = \<lparr>searched = [], answer = Response 200 (JObj [(''segments'', JArr [])])\<rparr>
   \<and> searched (addServerEndpoints example_env failing_request)
     = [(''south'', Some (JStr ''Example Org''))]
   \<and> answer (addServerEndpoints example_env failing_request)
     = Response 200 (JObj [(''segments'', JArr []), (''error'', JStr ''gVIRS unreachable'')])"
proof -
  have a: "addServerEndpoints example_env anonymous_request
     = \<lparr>searched = [], answer = Response 401 (JObj [])\<rparr>"
    using addServerEndpoints_replies [of anonymous_request example_env]
    by (simp add: anonymous_request_def)
  have b: "addServerEndpoints example_env short_request
     = \<lparr>searched = [], answer = Response 200 (JObj [(''segments'', JArr [])])\<rparr>"
    using addServerEndpoints_replies [of short_request example_env "''no''"]
    by (simp add: short_request_def example_env_def)
  have p: "JSON_parse example_env [CHR ''{'', CHR ''}''] = Some (JObj [])"
    by (simp add: example_env_def)
  have c: "addServerEndpoints example_env nameless_request
     = \<lparr>searched = [], answer = Response 200 (JObj [(''segments'', JArr [])])\<rparr>"
    using addServerEndpoints_replies
      [of nameless_request example_env "''north''" "[CHR ''{'', CHR ''}'']" "JObj []"] p
    by (simp add: nameless_request_def)
  have s: "searched (addServerEndpoints example_env failing_request)
     = [(''south'', Some (JStr ''Example Org''))]"
    by (simp add: addServerEndpoints_def failing_request_def example_env_def)
  have r: "searchSegments example_env ''south'' (Some (JStr ''Example Org''))
     = Inl (JStr ''gVIRS unreachable'')"
    by (simp add: example_env_def)
  have d: "answer (addServerEndpoints example_env failing_request)
     = Response 200 (JObj [(''segments'', JArr []), (''error'', JStr ''gVIRS unreachable'')])"
    using addServerEndpoints_replies
      [of failing_request example_env _ _ _ "''south''" "Some (JStr ''Example Org'')"
        "JStr ''gVIRS unreachable''"] s r
    by blast
  from a b c s d show ?thesis by (intro conjI)
qed

text \<open>
  Claim C9 as it is stated fails on two authenticated requests whose client choice
  data have no key \<^verbatim>\<open>name\<close>: without the parameter \<^verbatim>\<open>query\<close> the handler
  throws on \<^verbatim>\<open>query.length\<close>, and with client choice data that decode to
  \<^verbatim>\<open>null\<close> it throws on the operator \<^verbatim>\<open>in\<close>; neither is answered with
  \<^verbatim>\<open>{ segments: [] }\<close>.
\<close>

theorem addServerEndpoints_replies_counterexample:
  "addServerEndpoints example_env queryless_request
     = \<lparr>searched = [], answer = Throws TypeError\<rparr>
   \<and> addServerEndpoints example_env null_data_request
     = \<lparr>searched = [], answer = Throws TypeError\<rparr>"
  by (simp add: addServerEndpoints_def queryless_request_def null_data_request_def
      example_env_def)

section \<open>Properties of the message status lifecycle\<close>

lemma needsMessage_iff:
  "message_status st c = needsMessage
     \<longleftrightarrow> \<not> opted_out st c \<and> contact_messages st (contact_id c) = []"
  by (simp add: message_status_def compute_message_status_def)

lemma find_contact_id: "find_contact st cid = Some c \<Longrightarrow> contact_id c = cid"
  by (auto simp: find_contact_def find_Some_iff)

lemma compute_map:
  assumes "\<And>m. is_from_contact (f m) = is_from_contact m"
  shows "compute_message_status opted (map f history) = compute_message_status opted history"
proof -
  have "list_ex is_from_contact (map f history) = list_ex is_from_contact history"
    by (simp add: list_ex_iff assms)
  moreover have "history \<noteq> [] \<Longrightarrow>
      is_from_contact (last (map f history)) = is_from_contact (last history)"
    by (simp add: last_map assms)
  ultimately show ?thesis
    by (simp add: compute_message_status_def)
qed

lemma contact_messages_markSent:
  "contact_messages (markSent st) cid =
     map (\<lambda>m. if \<not> is_from_contact m \<and> send_status m = QUEUED
               then m\<lparr>send_status := SENT\<rparr> else m)
       (contact_messages st cid)"
  by (simp add: contact_messages_def markSent_def filter_map comp_def if_distrib cong: if_cong)

lemma message_status_markSent: "message_status (markSent st) c = message_status st c"
proof -
  have "opted_out (markSent st) c = opted_out st c"
    by (simp add: opted_out_def markSent_def)
  then show ?thesis
    by (simp add: message_status_def contact_messages_markSent compute_map)
qed

lemma contact_messages_append:
  "contact_messages (st\<lparr>messages := messages st @ [m]\<rparr>) cid =
     contact_messages st cid @ (if campaign_contact_id m = cid then [m] else [])"
  by (simp add: contact_messages_def)

lemma opted_out_messages: "opted_out (st\<lparr>messages := ms\<rparr>) c = opted_out st c"
  by (simp add: opted_out_def)

text \<open>
  Claim C1. For every contact whose status is \<open>needsMessage\<close>, \<^verbatim>\<open>sendMessage\<close>
  succeeds and returns the contact with the status \<open>messaged\<close> and exactly one
  message, whose text is the text sent; once the provider has marked the message SENT,
  the status of the contact is still \<open>messaged\<close>.
\<close>

theorem sendMessage_first_message:
  assumes "find_contact st cid = Some c"
    and "message_status st c = needsMessage"
  shows "\<exists>st' v. sendMessage st cid txt aid = Some (st', v)
     \<and> messageStatus v = messaged
     \<and> map message_text (view_messages v) = [txt]
     \<and> map send_status (contact_messages (markSent st') cid) = [SENT]
     \<and> message_status (markSent st') c = messaged"
proof -
  define m where "m = \<lparr>message_text = txt, is_from_contact = False, send_status = QUEUED,
     message_assignment_id = aid, campaign_contact_id = cid\<rparr>"
  define st' where "st' = st\<lparr>messages := messages st @ [m]\<rparr>"
  from assms(1) have i: "contact_id c = cid"
    by (rule find_contact_id)
  from assms(2) i have o: "\<not> opted_out st c" and e: "contact_messages st cid = []"
    by (simp_all add: needsMessage_iff)
  have h: "contact_messages st' cid = [m]"
    by (simp add: st'_def contact_messages_append e m_def)
  from o have o': "\<not> opted_out st' c"
    by (simp add: st'_def opted_out_messages)
  from h o' i have s: "message_status st' c = messaged"
    by (simp add: message_status_def compute_message_status_def m_def)
  from assms(1) have r: "sendMessage st cid txt aid = Some (st', view st' c)"
    by (simp add: sendMessage_def st'_def m_def Let_def)
  have v: "messageStatus (view st' c) = messaged"
    "map message_text (view_messages (view st' c)) = [txt]"
    by (simp_all add: view_def s i h m_def)
  have k: "map send_status (contact_messages (markSent st') cid) = [SENT]"
    by (simp add: contact_messages_markSent h m_def)
  from r v k s show ?thesis
    by (simp add: message_status_markSent)
qed

text \<open>
  Claim C2, as amended. For every contact without an opt-out, an inbound message sets
  the status to \<open>needsResponse\<close>, and an outbound reply after it sets the status to
  \<open>convo\<close>, which it keeps when the provider marks the reply SENT.
\<close>

theorem receive_then_reply:
  assumes "find_contact st cid = Some c"
    and "\<not> opted_out st c"
  shows "\<exists>st1 st2 v. receiveMessage st cid txt aid = Some st1
     \<and> message_status st1 c = needsResponse
     \<and> sendMessage st1 cid reply aid = Some (st2, v)
     \<and> messageStatus v = convo
     \<and> message_status st2 c = convo
     \<and> message_status (markSent st2) c = convo"
proof -
  define m1 where "m1 = \<lparr>message_text = txt, is_from_contact = True, send_status = DELIVERED,
     message_assignment_id = aid, campaign_contact_id = cid\<rparr>"
  define m2 where "m2 = \<lparr>message_text = reply, is_from_contact = False, send_status = QUEUED,
     message_assignment_id = aid, campaign_contact_id = cid\<rparr>"
  define st1 where "st1 = st\<lparr>messages := messages st @ [m1]\<rparr>"
  define st2 where "st2 = st1\<lparr>messages := messages st1 @ [m2]\<rparr>"
  from assms(1) have i: "contact_id c = cid"
    by (rule find_contact_id)
  have h1: "contact_messages st1 cid = contact_messages st cid @ [m1]"
    by (simp add: st1_def contact_messages_append m1_def)
  have h2: "contact_messages st2 cid = contact_messages st cid @ [m1, m2]"
    by (simp add: st2_def contact_messages_append h1 m2_def)
  from assms(2) have o: "\<not> opted_out st1 c" "\<not> opted_out st2 c"
    by (simp_all add: st1_def st2_def opted_out_messages)
  from o i h1 have s1: "message_status st1 c = needsResponse"
    by (simp add: message_status_def compute_message_status_def m1_def)
  from o i h2 have s2: "message_status st2 c = convo"
    by (simp add: message_status_def compute_message_status_def m1_def m2_def)
  from assms(1) have r1: "receiveMessage st cid txt aid = Some st1"
    by (simp add: receiveMessage_def st1_def m1_def)
  from assms(1) have f1: "find_contact st1 cid = Some c"
    by (simp add: find_contact_def st1_def)
  then have r2: "sendMessage st1 cid reply aid = Some (st2, view st2 c)"
    by (simp add: sendMessage_def st2_def m2_def Let_def)
  have v: "messageStatus (view st2 c) = convo"
    by (simp add: view_def s2)
  from r1 s1 r2 v s2 show ?thesis
    by (simp add: message_status_markSent)
qed

text \<open>
  Claim C2 as it is stated fails for a contact with an opt-out: after an inbound
  message its status is \<open>optOut\<close>, not \<open>needsResponse\<close>.
\<close>

theorem receive_then_reply_counterexample:
  "find_contact opted_out_store 1 = Some example_contact
   \<and> receiveMessage opted_out_store 1 ''STOP'' 5
       = Some (opted_out_store\<lparr>messages :=
           [\<lparr>message_text = ''STOP'', is_from_contact = True, send_status = DELIVERED,
             message_assignment_id = 5, campaign_contact_id = 1\<rparr>]\<rparr>)
   \<and> message_status
       (opted_out_store\<lparr>messages :=
           [\<lparr>message_text = ''STOP'', is_from_contact = True, send_status = DELIVERED,
             message_assignment_id = 5, campaign_contact_id = 1\<rparr>]\<rparr>)
       example_contact = optOut"
  by (simp add: find_contact_def receiveMessage_def opted_out_store_def example_store_def
      example_contact_def message_status_def compute_message_status_def opted_out_def)

lemma step_contacts: "campaign_contacts (step st opn) = campaign_contacts st"
  by (cases opn)
    (auto simp: sendMessage_def receiveMessage_def markSent_def createOptOut_def Let_def
      split: option.splits)

lemma step_opt_outs: "x \<in> set (opt_outs st) \<Longrightarrow> x \<in> set (opt_outs (step st opn))"
  by (cases opn)
    (auto simp: sendMessage_def receiveMessage_def markSent_def createOptOut_def Let_def
      split: option.splits)

lemma steps_contacts: "campaign_contacts (foldl step st ops) = campaign_contacts st"
  by (induction ops arbitrary: st) (simp_all add: step_contacts)

lemma steps_opt_outs: "x \<in> set (opt_outs st) \<Longrightarrow> x \<in> set (opt_outs (foldl step st ops))"
  by (induction ops arbitrary: st) (simp_all add: step_opt_outs)

text \<open>
  Claim C3. For every contact, in whatever state of its conversation, once
  \<^verbatim>\<open>createOptOut\<close> has recorded an opt-out for its cell number, and after any
  operations that follow, its status is \<open>optOut\<close>, and \<^verbatim>\<open>getAssignmentContacts\<close>
  returns it with that status and an \<^verbatim>\<open>optOut\<close> that is not null.
\<close>

theorem createOptOut_overrides:
  assumes "find_contact st cid = Some c"
    and "assignment_id c = Some aid"
    and "st' = foldl step (createOptOut st (contact_cell c)) ops"
  shows "message_status st' c = optOut
     \<and> map messageStatus (getAssignmentContacts st' aid [cid]) = [optOut]
     \<and> map view_optOut (getAssignmentContacts st' aid [cid]) = [Some ''optout'']"
proof -
  have "contact_cell c \<in> set (opt_outs (createOptOut st (contact_cell c)))"
    by (simp add: createOptOut_def)
  then have o: "opted_out st' c"
    unfolding assms(3) opted_out_def by (rule steps_opt_outs)
  then have s: "message_status st' c = optOut"
    by (simp add: message_status_def compute_message_status_def)
  have "campaign_contacts st' = campaign_contacts st"
    by (simp add: assms(3) steps_contacts createOptOut_def)
  with assms(1) have f: "find_contact st' cid = Some c"
    by (simp add: find_contact_def)
  with assms(2) have g: "getAssignmentContacts st' aid [cid] = [view st' c]"
    by (simp add: getAssignmentContacts_def List.map_filter_simps)
  from s o g show ?thesis
    by (simp add: view_def)
qed

lemma example_find: "find_contact example_store 1 = Some example_contact"
  by (simp add: find_contact_def example_store_def example_contact_def)

lemma example_fresh: "message_status example_store example_contact = needsMessage"
  by (simp add: message_status_def compute_message_status_def opted_out_def
      contact_messages_def example_store_def)

lemma example_not_opted_out: "\<not> opted_out example_store example_contact"
  by (simp add: opted_out_def example_store_def)

theorem sendMessage_first_message_witness:
  "find_contact example_store 1 = Some example_contact
   \<and> message_status example_store example_contact = needsMessage
   \<and> (\<exists>st' v. sendMessage example_store 1 ''test text'' 5 = Some (st', v)
        \<and> messageStatus v = messaged
        \<and> map message_text (view_messages v) = [''test text'']
        \<and> map send_status (contact_messages (markSent st') 1) = [SENT]
        \<and> message_status (markSent st') example_contact = messaged)"
  using example_find example_fresh
    sendMessage_first_message [OF example_find example_fresh, of "''test text''" 5]
  by (intro conjI)

theorem receive_then_reply_witness:
  "find_contact example_store 1 = Some example_contact
   \<and> \<not> opted_out example_store example_contact
   \<and> (\<exists>st1 st2 v. receiveMessage example_store 1 ''responding to test text'' 5 = Some st1
        \<and> message_status st1 example_contact = needsResponse
        \<and> sendMessage st1 1 ''reply'' 5 = Some (st2, v)
        \<and> messageStatus v = convo
        \<and> message_status st2 example_contact = convo
        \<and> message_status (markSent st2) example_contact = convo)"
  using example_find example_not_opted_out
    receive_then_reply [OF example_find example_not_opted_out,
      of "''responding to test text''" 5 "''reply''"]
  by (intro conjI)

theorem createOptOut_overrides_witness:
  "find_contact example_store 1 = Some example_contact
   \<and> assignment_id example_contact = Some 5
   \<and> message_status
        (foldl step (createOptOut example_store (contact_cell example_contact))
           [SendMessage 1 ''hello again'' 5, MarkSent, ReceiveMessage 1 ''hi'' 5])
        example_contact = optOut
   \<and> map view_optOut
        (getAssignmentContacts
           (foldl step (createOptOut example_store (contact_cell example_contact))
              [SendMessage 1 ''hello again'' 5, MarkSent, ReceiveMessage 1 ''hi'' 5])
           5 [1]) = [Some ''optout'']"
proof -
  have a: "assignment_id example_contact = Some 5"
    by (simp add: example_contact_def)
  note w = createOptOut_overrides [OF example_find a refl,
    of "[SendMessage 1 ''hello again'' 5, MarkSent, ReceiveMessage 1 ''hi'' 5]"]
  from w have s: "message_status
        (foldl step (createOptOut example_store (contact_cell example_contact))
           [SendMessage 1 ''hello again'' 5, MarkSent, ReceiveMessage 1 ''hi'' 5])
        example_contact = optOut"
    by (rule conjunct1)
  from w have v: "map view_optOut
        (getAssignmentContacts
           (foldl step (createOptOut example_store (contact_cell example_contact))
              [SendMessage 1 ''hello again'' 5, MarkSent, ReceiveMessage 1 ''hi'' 5])
           5 [1]) = [Some ''optout'']"
    by (rule conjunct2 [THEN conjunct2])
  from example_find a s v show ?thesis
    by (intro conjI)
qed

end
